theory Spec2Isabelle
  imports Complex_Main "HOL-Library.Word"
begin

section \<open>Data model\<close>

text \<open>
  The prediction pipeline of \<^verbatim>\<open>trainedmodels/alzaimerpark.py\<close>: validation,
  preprocessing and inference, and the class-to-metadata lookup of
  \<^verbatim>\<open>routes/prediction_routes.py\<close>.

  Python exceptions are values: every \<^verbatim>\<open>raise\<close> of the source and every failure of a
  library call is an \<open>Inl\<close> branch, and \<^verbatim>\<open>str(e)\<close> is \<open>str_of\<close>.
\<close>

type_synonym uint8 = "8 word"

datatype exn =
    ValueError string
  | IndexError string
  | KeyError string
  | UnidentifiedImageError string
  | RuntimeFailure string

fun str_of :: "exn \<Rightarrow> string" where
  "str_of (ValueError m) = m"
| "str_of (IndexError m) = m"
| "str_of (KeyError m) = m"
| "str_of (UnidentifiedImageError m) = m"
| "str_of (RuntimeFailure m) = m"

text \<open>
  A numpy array is its shape and its buffer in row-major order. The arrays of the
  pipeline hold 8-bit samples (dtype uint8), the dtype of the Pillow modes below.
\<close>

record 'a ndarray =
  shape :: "nat list"
  data :: "'a list"

text \<open>
  A decoded Pillow image: its mode, its size and its samples, row by row, the bands of a
  pixel next to each other. The modes are the 8-bit ones that image files yield:
  grey (L), palette (P), grey with alpha (LA), RGB, RGBA and CMYK.
\<close>

datatype mode = Mode_L | Mode_P | Mode_LA | Mode_RGB | Mode_RGBA | Mode_CMYK

fun bands :: "mode \<Rightarrow> nat" where
  "bands Mode_L = 1"
| "bands Mode_P = 1"
| "bands Mode_LA = 2"
| "bands Mode_RGB = 3"
| "bands Mode_RGBA = 4"
| "bands Mode_CMYK = 4"

record pil_image =
  im_mode :: mode
  im_width :: nat
  im_height :: nat
  im_samples :: "uint8 list"

text \<open>\<^verbatim>\<open>np.array(image)\<close>: a single-band image is a 2-D array (height, width), a
  multi-band one a 3-D array (height, width, bands).\<close>

definition np_array :: "pil_image \<Rightarrow> uint8 ndarray" where
  "np_array im =
     \<lparr>shape = (if bands (im_mode im) = 1 then [im_height im, im_width im]
               else [im_height im, im_width im, bands (im_mode im)]),
      data = im_samples im\<rparr>"

text \<open>
  \<^verbatim>\<open>Image.resize((w, h))\<close>: the result has the requested size and the mode of its
  argument; the value of each sample is what the resampling filter computes, which is
  the parameter \<open>kern\<close> (image, target size, column, row, band).
\<close>

type_synonym resampler = "pil_image \<Rightarrow> nat \<times> nat \<Rightarrow> nat \<Rightarrow> nat \<Rightarrow> nat \<Rightarrow> uint8"

definition resize :: "resampler \<Rightarrow> pil_image \<Rightarrow> nat \<times> nat \<Rightarrow> pil_image" where
  "resize kern im sz =
     \<lparr>im_mode = im_mode im, im_width = fst sz, im_height = snd sz,
      im_samples =
        concat (map (\<lambda>y. concat (map (\<lambda>x. map (\<lambda>c. kern im sz x y c)
                                             [0..<bands (im_mode im)])
                                   [0..<fst sz]))
                    [0..<snd sz])\<rparr>"

section \<open>Image validator\<close>

record validation_result =
  is_valid :: bool
  reason :: string

text \<open>\<^verbatim>\<open>image_array[:,:,c]\<close>: a 2-D plane of a 3-D array; IndexError when the array
  has another rank or fewer than \<open>c + 1\<close> channels.\<close>

definition channel :: "'a ndarray \<Rightarrow> nat \<Rightarrow> exn + 'a ndarray" where
  "channel a c =
     (case shape a of
        [h, w, k] \<Rightarrow>
          if c < k
          then Inr \<lparr>shape = [h, w], data = map (\<lambda>i. data a ! (i * k + c)) [0..<h * w]\<rparr>
          else Inl (IndexError ''index out of bounds for axis 2'')
      | _ \<Rightarrow> Inl (IndexError ''too many indices for array''))"

definition astype_float :: "uint8 ndarray \<Rightarrow> real ndarray" where
  "astype_float a = \<lparr>shape = shape a, data = map (\<lambda>v. real (unat v)) (data a)\<rparr>"

definition np_sub :: "real ndarray \<Rightarrow> real ndarray \<Rightarrow> real ndarray" where
  "np_sub a b = \<lparr>shape = shape a, data = map2 (\<lambda>x y. x - y) (data a) (data b)\<rparr>"

definition np_abs :: "real ndarray \<Rightarrow> real ndarray" where
  "np_abs a = \<lparr>shape = shape a, data = map abs (data a)\<rparr>"

text \<open>\<^verbatim>\<open>np.mean\<close> of an array without elements is nan (a warning, no exception):
  \<open>None\<close> stands for nan, which propagates through \<open>+\<close> and compares false.\<close>

definition np_mean :: "real ndarray \<Rightarrow> real option" where
  "np_mean a = (if data a = [] then None
                else Some (sum_list (data a) / real (length (data a))))"

definition float_add :: "real option \<Rightarrow> real option \<Rightarrow> real option" where
  "float_add x y = (case x of None \<Rightarrow> None
                    | Some u \<Rightarrow> (case y of None \<Rightarrow> None | Some v \<Rightarrow> Some (u + v)))"

definition float_gt :: "real option \<Rightarrow> real \<Rightarrow> bool" where
  "float_gt x t = (case x of None \<Rightarrow> False | Some u \<Rightarrow> u > t)"

definition rejected :: validation_result where
  "rejected = \<lparr>is_valid = False,
     reason = ''This appears to be a color photograph. Please upload a medical scan (MRI, CT, X-ray, etc.).''\<rparr>"

definition accepted :: validation_result where
  "accepted = \<lparr>is_valid = True, reason = ''Image accepted for analysis.''\<rparr>"

definition skipped :: validation_result where
  "skipped = \<lparr>is_valid = True, reason = ''Validation skipped due to error.''\<rparr>"

definition color_diff :: "uint8 ndarray \<Rightarrow> uint8 ndarray \<Rightarrow> uint8 ndarray \<Rightarrow> real option" where
  "color_diff r g b =
     float_add
       (float_add (np_mean (np_abs (np_sub (astype_float r) (astype_float g))))
                  (np_mean (np_abs (np_sub (astype_float g) (astype_float b)))))
       (np_mean (np_abs (np_sub (astype_float r) (astype_float b))))"

text \<open>The body of the \<^verbatim>\<open>try\<close> block of \<^verbatim>\<open>validate_image_for_medical_scan\<close>;
  \<open>Image_open\<close> is Pillow's decoder (open and load), a parameter.\<close>

definition validate_try ::
  "(uint8 list \<Rightarrow> exn + pil_image) \<Rightarrow> uint8 list \<Rightarrow> exn + validation_result" where
  "validate_try Image_open file_bytes =
     (case Image_open file_bytes of
        Inl e \<Rightarrow> Inl e
      | Inr img \<Rightarrow>
          let image_array = np_array img in
          if length (shape image_array) = 3
          then (case channel image_array 0 of Inl e \<Rightarrow> Inl e | Inr r \<Rightarrow>
               (case channel image_array 1 of Inl e \<Rightarrow> Inl e | Inr g \<Rightarrow>
               (case channel image_array 2 of Inl e \<Rightarrow> Inl e | Inr b \<Rightarrow>
                  if float_gt (color_diff r g b) 20 then Inr rejected else Inr accepted)))
          else Inr accepted)"

definition validate_image_for_medical_scan ::
  "(uint8 list \<Rightarrow> exn + pil_image) \<Rightarrow> uint8 list \<Rightarrow> validation_result" where
  "validate_image_for_medical_scan Image_open file_bytes =
     (case validate_try Image_open file_bytes of
        Inl e \<Rightarrow> skipped
      | Inr v \<Rightarrow> v)"

section \<open>Preprocessor\<close>

text \<open>\<^verbatim>\<open>cv2.cvtColor(a, cv2.COLOR_GRAY2RGB)\<close>: each grey sample becomes three equal
  channels. OpenCV refuses an empty array and, here, any array that is not 2-D.\<close>

definition cvtColor_GRAY2RGB :: "'a ndarray \<Rightarrow> exn + 'a ndarray" where
  "cvtColor_GRAY2RGB a =
     (case shape a of
        [h, w] \<Rightarrow>
          if h = 0 \<or> w = 0 then Inl (RuntimeFailure ''(-215:Assertion failed) !_src.empty()'')
          else Inr \<lparr>shape = [h, w, 3], data = concat (map (\<lambda>v. [v, v, v]) (data a))\<rparr>
      | _ \<Rightarrow> Inl (RuntimeFailure ''Invalid number of channels in input image''))"

text \<open>\<^verbatim>\<open>cv2.cvtColor(a, cv2.COLOR_RGBA2RGB)\<close> on a 4-channel array: the fourth
  channel of every pixel is dropped.\<close>

definition cvtColor_RGBA2RGB :: "'a ndarray \<Rightarrow> exn + 'a ndarray" where
  "cvtColor_RGBA2RGB a =
     (case shape a of
        [h, w, k] \<Rightarrow>
          if h = 0 \<or> w = 0 then Inl (RuntimeFailure ''(-215:Assertion failed) !_src.empty()'')
          else if k = 4
          then Inr \<lparr>shape = [h, w, 3],
                    data = concat (map (\<lambda>i. [data a ! (i * 4), data a ! (i * 4 + 1),
                                              data a ! (i * 4 + 2)]) [0..<h * w])\<rparr>
          else Inl (RuntimeFailure ''Invalid number of channels in input image'')
      | _ \<Rightarrow> Inl (RuntimeFailure ''Invalid number of channels in input image''))"

definition expand_dims :: "'a ndarray \<Rightarrow> 'a ndarray" where
  \<comment> \<open>\<^verbatim>\<open>np.expand_dims(a, axis=0)\<close>\<close>
  "expand_dims a = \<lparr>shape = 1 # shape a, data = data a\<rparr>"

text \<open>The body of the \<^verbatim>\<open>try\<close> block of \<^verbatim>\<open>preprocess_image_from_bytes\<close>.\<close>

definition preprocess_try ::
  "(uint8 list \<Rightarrow> exn + pil_image) \<Rightarrow> resampler \<Rightarrow> uint8 list \<Rightarrow> exn + uint8 ndarray" where
  "preprocess_try Image_open kern file_bytes =
     (let validation = validate_image_for_medical_scan Image_open file_bytes in
      if \<not> is_valid validation then Inl (ValueError (reason validation))
      else
        (case Image_open file_bytes of
           Inl e \<Rightarrow> Inl e
         | Inr opened \<Rightarrow>
             let img = resize kern opened (150, 150);
                 image_array = np_array img
             in (case (if length (shape image_array) = 2
                       then cvtColor_GRAY2RGB image_array
                       else if shape image_array = []
                       then Inl (IndexError ''tuple index out of range'')
                       else if last (shape image_array) = 4
                       then cvtColor_RGBA2RGB image_array
                       else Inr image_array) of
                   Inl e \<Rightarrow> Inl e
                 | Inr converted \<Rightarrow> Inr (expand_dims converted))))"

definition preprocess_image_from_bytes ::
  "(uint8 list \<Rightarrow> exn + pil_image) \<Rightarrow> resampler \<Rightarrow> uint8 list \<Rightarrow> exn + uint8 ndarray" where
  "preprocess_image_from_bytes Image_open kern file_bytes =
     (case preprocess_try Image_open kern file_bytes of
        Inl e \<Rightarrow> Inl (ValueError (''Failed to preprocess image: '' @ str_of e))
      | Inr t \<Rightarrow> Inr t)"

section \<open>Inference engine\<close>

text \<open>
  The loaded classifier maps one image to its vector of class probabilities, or fails.
  \<^verbatim>\<open>MODEL\<close> is \<open>None\<close> or such a classifier. \<^verbatim>\<open>MODEL.predict\<close> runs it on every
  element of the batch (the leading axis) and stacks the rows. Floats are reals here.
\<close>

type_synonym classifier = "uint8 ndarray \<Rightarrow> exn + real list"

definition batch_items :: "'a ndarray \<Rightarrow> 'a ndarray list" where
  "batch_items x =
     (case shape x of
        [] \<Rightarrow> []
      | n # rest \<Rightarrow>
          map (\<lambda>i. \<lparr>shape = rest,
                    data = take (prod_list rest) (drop (i * prod_list rest) (data x))\<rparr>)
              [0..<n])"

fun collect :: "(exn + 'a) list \<Rightarrow> exn + 'a list" where
  "collect [] = Inr []"
| "collect (Inl e # _) = Inl e"
| "collect (Inr v # rs) = (case collect rs of Inl e \<Rightarrow> Inl e | Inr vs \<Rightarrow> Inr (v # vs))"

definition model_predict :: "classifier \<Rightarrow> uint8 ndarray \<Rightarrow> exn + real list list" where
  "model_predict net x =
     (if shape x = [] then Inl (ValueError ''Input has no batch dimension'')
      else collect (map net (batch_items x)))"

text \<open>\<^verbatim>\<open>np.argmax\<close> of a row: a scan from the left that moves only to a strictly
  greater value; ValueError on an empty row.\<close>

fun argmax_from :: "'a::linorder list \<Rightarrow> nat \<Rightarrow> 'a \<Rightarrow> nat \<Rightarrow> nat" where
  "argmax_from [] i best best_i = best_i"
| "argmax_from (x # xs) i best best_i =
     (if best < x then argmax_from xs (i + 1) x i else argmax_from xs (i + 1) best best_i)"

definition np_argmax :: "'a::linorder list \<Rightarrow> exn + nat" where
  "np_argmax row =
     (case row of
        [] \<Rightarrow> Inl (ValueError ''attempt to get argmax of an empty sequence'')
      | x # xs \<Rightarrow> Inr (argmax_from xs 1 x 0))"

definition np_argmax_axis1 :: "'a::linorder list list \<Rightarrow> exn + nat list" where
  "np_argmax_axis1 prd = collect (map np_argmax prd)"

definition np_max :: "'a::linorder list list \<Rightarrow> exn + 'a" where
  \<comment> \<open>\<^verbatim>\<open>np.max(prd)\<close>: the greatest element of the whole array\<close>
  "np_max prd =
     (case concat prd of
        [] \<Rightarrow> Inl (ValueError ''zero-size array to reduction operation maximum which has no identity'')
      | x # xs \<Rightarrow> Inr (fold max xs x))"

definition dict_get :: "('k \<rightharpoonup> 'v) \<Rightarrow> 'k \<Rightarrow> 'v \<Rightarrow> 'v" where
  "dict_get m k d = (case m k of None \<Rightarrow> d | Some v \<Rightarrow> v)"

definition class_mapping :: "int \<rightharpoonup> string" where
  "class_mapping = [0 \<mapsto> ''CONTROL'', 1 \<mapsto> ''AD'', 2 \<mapsto> ''PD'']"

record prediction_result =
  prediction :: string
  confidence :: real
  class_id :: int
  raw_probabilities :: "real list list"

text \<open>The process state that inference touches: the number of forward passes started.\<close>

record runtime =
  forward_passes :: nat

definition image_prediction_try ::
  "classifier option \<Rightarrow> uint8 ndarray \<Rightarrow> runtime \<Rightarrow> (exn + prediction_result) \<times> runtime" where
  "image_prediction_try MODEL image_array s =
     (case MODEL of
        None \<Rightarrow> (Inl (ValueError ''Model not loaded''), s)
      | Some net \<Rightarrow>
          (case model_predict net image_array of
             Inl e \<Rightarrow> Inl e
           | Inr prd \<Rightarrow>
               (case np_argmax_axis1 prd of
                  Inl e \<Rightarrow> Inl e
                | Inr [] \<Rightarrow> Inl (IndexError ''index 0 is out of bounds for axis 0 with size 0'')
                | Inr (cid # _) \<Rightarrow>
                    (case np_max prd of
                       Inl e \<Rightarrow> Inl e
                     | Inr conf \<Rightarrow>
                         Inr \<lparr>prediction = dict_get class_mapping (int cid) ''Unknown'',
                              confidence = conf,
                              class_id = int cid,
                              raw_probabilities = prd\<rparr>)),
           s\<lparr>forward_passes := forward_passes s + 1\<rparr>))"

definition image_prediction ::
  "classifier option \<Rightarrow> uint8 ndarray \<Rightarrow> runtime \<Rightarrow> (exn + prediction_result) \<times> runtime" where
  "image_prediction MODEL image_array s =
     (case image_prediction_try MODEL image_array s of
        (Inl e, s') \<Rightarrow> (Inl (ValueError (''Prediction failed: '' @ str_of e)), s')
      | (Inr r, s') \<Rightarrow> (Inr r, s'))"

definition is_model_loaded :: "classifier option \<Rightarrow> bool" where
  "is_model_loaded MODEL \<longleftrightarrow> MODEL \<noteq> None"

section \<open>Result mapper\<close>

record prediction_detail =
  name :: string
  full_name :: string
  description :: string
  recommendation :: string

definition control_detail :: prediction_detail where
  "control_detail =
     \<lparr>name = ''CONTROL'', full_name = ''Normal Brain Scan'',
      description = ''The brain scan appears normal with no signs of neurological disorders.'',
      recommendation = ''Continue regular health monitoring. Maintain a healthy lifestyle with proper diet, exercise, and mental stimulation.''\<rparr>"

definition ad_detail :: prediction_detail where
  "ad_detail =
     \<lparr>name = ''AD'', full_name = ''Alzheimer's Disease'',
      description = ''The scan shows patterns consistent with Alzheimer's disease, characterized by brain tissue changes.'',
      recommendation = ''Consult with a neurologist for comprehensive evaluation and potential treatment options. Early intervention may help manage symptoms.''\<rparr>"

definition pd_detail :: prediction_detail where
  "pd_detail =
     \<lparr>name = ''PD'', full_name = ''Parkinson's Disease'',
      description = ''The scan indicates patterns associated with Parkinson's disease, affecting movement and motor functions.'',
      recommendation = ''Schedule an appointment with a movement disorder specialist. Physical therapy and medication may help manage symptoms.''\<rparr>"

definition prediction_details :: "string \<rightharpoonup> prediction_detail" where
  "prediction_details = [''CONTROL'' \<mapsto> control_detail, ''AD'' \<mapsto> ad_detail, ''PD'' \<mapsto> pd_detail]"

text \<open>\<^verbatim>\<open>prediction_details.get(prediction_class, prediction_details['CONTROL'])\<close>: the
  default is looked up first (KeyError when missing), then the class.\<close>

definition current_prediction :: "string \<Rightarrow> exn + prediction_detail" where
  "current_prediction prediction_class =
     (case prediction_details ''CONTROL'' of
        None \<Rightarrow> Inl (KeyError ''CONTROL'')
      | Some dflt \<Rightarrow> Inr (dict_get prediction_details prediction_class dflt))"

section \<open>The specification's words\<close>






section \<open>Concrete decoder, resampler and classifier\<close>

text \<open>
  Instances of the three library parameters, for running the pipeline on concrete
  bytes: a raw container (mode byte, width, height, samples), nearest-neighbour
  resampling, and a classifier that answers every 150 x 150 x 3 image with one fixed row.
\<close>

definition raw_mode :: "uint8 \<Rightarrow> mode option" where
  "raw_mode m =
     (if m = 0 then Some Mode_L else if m = 1 then Some Mode_P
      else if m = 2 then Some Mode_LA else if m = 3 then Some Mode_RGB
      else if m = 4 then Some Mode_RGBA else if m = 5 then Some Mode_CMYK else None)"

definition raw_open :: "uint8 list \<Rightarrow> exn + pil_image" where
  "raw_open bs =
     (case bs of
        m # w # h # px \<Rightarrow>
          (case raw_mode m of
             None \<Rightarrow> Inl (UnidentifiedImageError ''cannot identify image file'')
           | Some md \<Rightarrow>
               if length px = unat h * unat w * bands md
               then Inr \<lparr>im_mode = md, im_width = unat w, im_height = unat h, im_samples = px\<rparr>
               else Inl (RuntimeFailure ''image file is truncated''))
      | _ \<Rightarrow> Inl (UnidentifiedImageError ''cannot identify image file''))"

definition nearest :: resampler where
  "nearest im sz x y c =
     im_samples im ! (((y * im_height im) div snd sz * im_width im + (x * im_width im) div fst sz)
                        * bands (im_mode im) + c)"

definition fixed_classifier :: "real list \<Rightarrow> classifier" where
  "fixed_classifier row x = (if shape x = [150, 150, 3] then Inr row
                             else Inl (ValueError ''incompatible input shape''))"

definition zero_tensor :: "uint8 ndarray" where
  "zero_tensor = \<lparr>shape = [1, 150, 150, 3], data = replicate (1 * 150 * 150 * 3) 0\<rparr>"

section \<open>Auxiliary facts\<close>

subsection \<open>Lists\<close>





subsection \<open>Validator\<close>





subsection \<open>Preprocessor\<close>


lemma resize_simps [simp]:
  "im_mode (resize kern im sz) = im_mode im"
  "im_width (resize kern im sz) = fst sz"
  "im_height (resize kern im sz) = snd sz"
  by (simp_all add: resize_def)

lemma bands_cases: "bands m = 1 \<or> bands m = 2 \<or> bands m = 3 \<or> bands m = 4"
  by (cases m) auto

text \<open>What the try block computes once validation has passed and the bytes decode.\<close>

lemma preprocess_try_accept:
  assumes "Image_open b = Inr im" "is_valid (validate_image_for_medical_scan Image_open b)"
  shows "preprocess_try Image_open kern b =
     (let a = np_array (resize kern im (150, 150)) in
      if bands (im_mode im) = 1 then
        Inr \<lparr>shape = [1, 150, 150, 3], data = concat (map (\<lambda>v. [v, v, v]) (data a))\<rparr>
      else if bands (im_mode im) = 4 then
        Inr \<lparr>shape = [1, 150, 150, 3],
             data = concat (map (\<lambda>i. [data a ! (i * 4), data a ! (i * 4 + 1), data a ! (i * 4 + 2)])
                                [0..<150 * 150])\<rparr>
      else Inr \<lparr>shape = [1, 150, 150, bands (im_mode im)], data = data a\<rparr>)"
  using assms
  by (simp add: preprocess_try_def Let_def np_array_def cvtColor_GRAY2RGB_def
      cvtColor_RGBA2RGB_def expand_dims_def del: upt_Suc)


lemma preprocess_success:
  assumes "preprocess_image_from_bytes Image_open kern b = Inr t"
  shows "\<exists>im. Image_open b = Inr im \<and> is_valid (validate_image_for_medical_scan Image_open b)
              \<and> preprocess_try Image_open kern b = Inr t"
  using assms
  by (auto simp add: preprocess_image_from_bytes_def preprocess_try_def Let_def split: sum.splits if_splits)


lemma prepared_shape:
  assumes "preprocess_image_from_bytes Image_open kern b = Inr t"
  shows "\<exists>k. shape t = [1, 150, 150, k]"
proof -
  from preprocess_success[OF assms] obtain im where
    "Image_open b = Inr im" "is_valid (validate_image_for_medical_scan Image_open b)"
    "preprocess_try Image_open kern b = Inr t" by blast
  then show ?thesis
    using preprocess_try_accept[of Image_open b im kern]
    by (auto simp add: Let_def split: if_splits)
qed

subsection \<open>Inference\<close>





lemma np_max_row: "row \<noteq> [] \<Longrightarrow> np_max [row] = Inr (Max (set row))"
proof (cases row)
  case Nil
  assume "row \<noteq> []"
  then show ?thesis using Nil by simp
next
  case (Cons x xs)
  have "fold max xs x = Max (set (x # xs))" by (rule Max.set_eq_fold[symmetric])
  then show ?thesis using Cons by (simp add: np_max_def)
qed

lemma prediction_success:
  assumes "shape t = 1 # rest" "image_prediction (Some net) t s = (Inr r, s')"
  shows "\<exists>row k. net \<lparr>shape = rest, data = take (prod_list rest) (data t)\<rparr> = Inr row
            \<and> np_argmax row = Inr k
            \<and> r = \<lparr>prediction = dict_get class_mapping (int k) ''Unknown'',
                   confidence = Max (set row), class_id = int k, raw_probabilities = [row]\<rparr>
            \<and> s' = s\<lparr>forward_passes := forward_passes s + 1\<rparr>"
proof -
  let ?x = "\<lparr>shape = rest, data = take (prod_list rest) (data t)\<rparr>"
  have items: "batch_items t = [?x]"
    using assms(1) by (simp add: batch_items_def)
  obtain row where row: "net ?x = Inr row"
    using assms by (cases "net ?x")
      (auto simp add: image_prediction_def image_prediction_try_def model_predict_def items)
  obtain k where k: "np_argmax row = Inr k"
    using assms row by (cases "np_argmax row")
      (auto simp add: image_prediction_def image_prediction_try_def model_predict_def items
        np_argmax_axis1_def)
  then have "row \<noteq> []" by (auto simp add: np_argmax_def)
  then have "np_max [row] = Inr (Max (set row))" by (rule np_max_row)
  then show ?thesis
    using assms row k
    by (auto simp add: image_prediction_def image_prediction_try_def model_predict_def items
        np_argmax_axis1_def)
qed

subsection \<open>Concrete runs\<close>


lemma open_rgba: "raw_open [4, 1, 1, 100, 100, 100, 255] = Inr \<lparr>im_mode = Mode_RGBA, im_width = 1, im_height = 1, im_samples = [100, 100, 100, 255]\<rparr>"
  by (simp add: raw_open_def raw_mode_def)

lemma open_la: "raw_open [2, 1, 1, 90, 255] = Inr \<lparr>im_mode = Mode_LA, im_width = 1, im_height = 1, im_samples = [90, 255]\<rparr>"
  by (simp add: raw_open_def raw_mode_def)

lemma open_red: "raw_open [3, 1, 1, 255, 0, 0] = Inr \<lparr>im_mode = Mode_RGB, im_width = 1, im_height = 1, im_samples = [255, 0, 0]\<rparr>"
  by (simp add: raw_open_def raw_mode_def)

lemma open_empty: "raw_open [] = Inl (UnidentifiedImageError ''cannot identify image file'')"
  by (simp add: raw_open_def)


lemma valid_rgba: "validate_image_for_medical_scan raw_open [4, 1, 1, 100, 100, 100, 255] = accepted"
  by (simp add: validate_image_for_medical_scan_def validate_try_def open_rgba np_array_def
      channel_def color_diff_def np_mean_def np_abs_def np_sub_def astype_float_def
      float_add_def float_gt_def)

lemma valid_la: "validate_image_for_medical_scan raw_open [2, 1, 1, 90, 255] = skipped"
  by (simp add: validate_image_for_medical_scan_def validate_try_def open_la np_array_def
      channel_def)

lemma valid_red: "validate_image_for_medical_scan raw_open [3, 1, 1, 255, 0, 0] = rejected"
  by (simp add: validate_image_for_medical_scan_def validate_try_def open_red np_array_def
      channel_def color_diff_def np_mean_def np_abs_def np_sub_def astype_float_def
      float_add_def float_gt_def)






lemma validate_try_empty:
  "validate_try raw_open [] = Inl (UnidentifiedImageError ''cannot identify image file'')"
  by (simp add: validate_try_def open_empty)

lemma shape_zero_tensor: "shape zero_tensor = [1, 150, 150, 3]"
  by (simp add: zero_tensor_def)

lemma fixed_prediction:
  assumes "shape t = [1, 150, 150, 3]"
  shows "image_prediction (Some (fixed_classifier [1/5, 1/2, 3/10])) t \<lparr>forward_passes = 0\<rparr>
     = (Inr \<lparr>prediction = ''AD'', confidence = 1/2, class_id = 1,
             raw_probabilities = [[1/5, 1/2, 3/10]]\<rparr>, \<lparr>forward_passes = 1\<rparr>)"
  using assms
  by (simp add: image_prediction_def image_prediction_try_def model_predict_def batch_items_def
      fixed_classifier_def np_argmax_axis1_def np_argmax_def np_max_def dict_get_def
      class_mapping_def)

lemma fixed_prediction_two:
  assumes "shape t = [1, 150, 150, 3]"
  shows "image_prediction (Some (fixed_classifier [1/2, 1/4])) t \<lparr>forward_passes = 0\<rparr>
     = (Inr \<lparr>prediction = ''CONTROL'', confidence = 1/2, class_id = 0,
             raw_probabilities = [[1/2, 1/4]]\<rparr>, \<lparr>forward_passes = 1\<rparr>)"
  using assms
  by (simp add: image_prediction_def image_prediction_try_def model_predict_def batch_items_def
      fixed_classifier_def np_argmax_axis1_def np_argmax_def np_max_def dict_get_def
      class_mapping_def)

lemma rgba_prepared:
  "\<exists>t. preprocess_image_from_bytes raw_open nearest [4, 1, 1, 100, 100, 100, 255] = Inr t
       \<and> shape t = [1, 150, 150, 3]"
proof -
  have v: "is_valid (validate_image_for_medical_scan raw_open [4, 1, 1, 100, 100, 100, 255])"
    by (simp add: valid_rgba accepted_def)
  show ?thesis
    using preprocess_try_accept[of raw_open _ _ nearest, OF open_rgba v]
    by (simp add: preprocess_image_from_bytes_def Let_def)
qed

lemma la_prepared:
  "\<exists>t. preprocess_image_from_bytes raw_open nearest [2, 1, 1, 90, 255] = Inr t
       \<and> shape t = [1, 150, 150, 2]"
proof -
  have v: "is_valid (validate_image_for_medical_scan raw_open [2, 1, 1, 90, 255])"
    by (simp add: valid_la skipped_def)
  show ?thesis
    using preprocess_try_accept[of raw_open _ _ nearest, OF open_la v]
    by (simp add: preprocess_image_from_bytes_def Let_def)
qed

section \<open>Claims\<close>

subsection \<open>Preprocessor: shape of the prepared tensor\<close>



subsection \<open>Inference: class and confidence\<close>



subsection \<open>Inference: absent model\<close>

text \<open>
  C3. When \<^verbatim>\<open>MODEL\<close> is \<open>None\<close>, \<^verbatim>\<open>image_prediction\<close> fails on every tensor with the
  error raised by the check at the head of the function (message ``Model not loaded'',
  wrapped as ``Prediction failed: Model not loaded''), and the process state is
  unchanged: no forward pass is started. With a loaded model every call starts one.
\<close>

theorem predict_absent_model:
  "image_prediction None t s = (Inl (ValueError ''Prediction failed: Model not loaded''), s)
   \<and> fst (image_prediction_try None t s) = Inl (ValueError ''Model not loaded'')
   \<and> forward_passes (snd (image_prediction None t s)) = forward_passes s
   \<and> \<not> is_model_loaded None
   \<and> forward_passes (snd (image_prediction (Some net) t s)) = forward_passes s + 1"
  by (simp add: image_prediction_def image_prediction_try_def is_model_loaded_def
      split: sum.splits)

subsection \<open>Inference: raw probabilities\<close>

text \<open>
  C4, as stated: the returned \<^verbatim>\<open>raw_probabilities\<close> has exactly 3 entries summing to 1.
  On the all-zero tensor, with a classifier that answers (1/5, 1/2, 3/10), the call
  succeeds and \<^verbatim>\<open>raw_probabilities\<close> is the nested list \<^verbatim>\<open>prd.tolist()\<close>: one entry,
  the row. With a classifier that answers (1/2, 1/4) the call succeeds as well, and the
  row has two entries of sum 3/4: nothing in the function checks or renormalises.
\<close>

theorem raw_probabilities_triple_counterexample:
  "image_prediction (Some (fixed_classifier [1/5, 1/2, 3/10])) zero_tensor \<lparr>forward_passes = 0\<rparr>
     = (Inr \<lparr>prediction = ''AD'', confidence = 1/2, class_id = 1,
             raw_probabilities = [[1/5, 1/2, 3/10]]\<rparr>, \<lparr>forward_passes = 1\<rparr>)
   \<and> length (raw_probabilities
        (projr (fst (image_prediction (Some (fixed_classifier [1/5, 1/2, 3/10])) zero_tensor
                       \<lparr>forward_passes = 0\<rparr>)))) \<noteq> 3
   \<and> image_prediction (Some (fixed_classifier [1/2, 1/4])) zero_tensor \<lparr>forward_passes = 0\<rparr>
     = (Inr \<lparr>prediction = ''CONTROL'', confidence = 1/2, class_id = 0,
             raw_probabilities = [[1/2, 1/4]]\<rparr>, \<lparr>forward_passes = 1\<rparr>)
   \<and> sum_list (hd (raw_probabilities
        (projr (fst (image_prediction (Some (fixed_classifier [1/2, 1/4])) zero_tensor
                       \<lparr>forward_passes = 0\<rparr>))))) = 3/4"
  by (simp add: fixed_prediction[OF shape_zero_tensor] fixed_prediction_two[OF shape_zero_tensor])

text \<open>
  C4, amended: for every tensor that \<^verbatim>\<open>preprocess_image_from_bytes\<close> returns and on which
  \<^verbatim>\<open>image_prediction\<close> succeeds, \<^verbatim>\<open>raw_probabilities\<close> is a list of one row, and that
  row is, unchanged and in the classifier's order, the vector the classifier produced
  for the image.
\<close>

theorem raw_probabilities_is_model_output:
  assumes "preprocess_image_from_bytes Image_open kern b = Inr t"
    and "image_prediction (Some net) t s = (Inr r, s')"
  shows "\<exists>row. net \<lparr>shape = tl (shape t), data = take (prod_list (tl (shape t))) (data t)\<rparr> = Inr row
           \<and> raw_probabilities r = [row]
           \<and> length (raw_probabilities r) = 1"
proof -
  obtain k where sh: "shape t = 1 # [150, 150, k]"
    using prepared_shape[OF assms(1)] by auto
  from prediction_success[OF this assms(2)] show ?thesis
    using sh by auto
qed

theorem raw_probabilities_is_model_output_witness:
  "\<exists>t r s'. preprocess_image_from_bytes raw_open nearest [4, 1, 1, 100, 100, 100, 255] = Inr t
     \<and> image_prediction (Some (fixed_classifier [1/5, 1/2, 3/10])) t \<lparr>forward_passes = 0\<rparr> = (Inr r, s')
     \<and> (\<exists>row. fixed_classifier [1/5, 1/2, 3/10]
                 \<lparr>shape = tl (shape t), data = take (prod_list (tl (shape t))) (data t)\<rparr> = Inr row
           \<and> raw_probabilities r = [row]
           \<and> length (raw_probabilities r) = 1)
     \<and> raw_probabilities r = [[1/5, 1/2, 3/10]]"
proof -
  obtain t where t: "preprocess_image_from_bytes raw_open nearest [4, 1, 1, 100, 100, 100, 255] = Inr t"
    and sh: "shape t = [1, 150, 150, 3]"
    using rgba_prepared by blast
  have p: "image_prediction (Some (fixed_classifier [1/5, 1/2, 3/10])) t \<lparr>forward_passes = 0\<rparr>
     = (Inr \<lparr>prediction = ''AD'', confidence = 1/2, class_id = 1,
             raw_probabilities = [[1/5, 1/2, 3/10]]\<rparr>, \<lparr>forward_passes = 1\<rparr>)"
    by (rule fixed_prediction[OF sh])
  from raw_probabilities_is_model_output[OF t p] t p show ?thesis
    by (intro exI[of _ t] exI conjI) (assumption | simp)+
qed

subsection \<open>Result mapper\<close>

text \<open>
  C5. The class-to-metadata lookup never fails: for every label it returns an entry, and
  for a class id outside 0, 1, 2 (label ``Unknown'' from \<^verbatim>\<open>class_mapping.get\<close>), as
  for every label other than the three known ones, it returns the CONTROL entry.
\<close>

theorem map_to_payload_total:
  "(\<exists>d. current_prediction label = Inr d)
   \<and> (cid \<notin> {0, 1, 2} \<longrightarrow>
        current_prediction (dict_get class_mapping cid ''Unknown'') = Inr control_detail)
   \<and> (label \<notin> {''CONTROL'', ''AD'', ''PD''} \<longrightarrow> current_prediction label = Inr control_detail)"
  by (auto simp add: current_prediction_def prediction_details_def dict_get_def class_mapping_def)

theorem map_to_payload_total_witness:
  "(7::int) \<notin> {0, 1, 2} \<and> ''Unknown'' \<notin> {''CONTROL'', ''AD'', ''PD''}
   \<and> current_prediction (dict_get class_mapping 7 ''Unknown'') = Inr control_detail
   \<and> current_prediction ''Unknown'' = Inr control_detail"
  using map_to_payload_total[of "''Unknown''" 7] by simp

subsection \<open>Validator\<close>



text \<open>
  C7. The validator returns a result for every byte sequence. Whenever its try block
  fails (the bytes do not decode, or the channel split fails, as on a two-band image)
  the result is accept, with the reason ``Validation skipped due to error.''
\<close>

theorem validate_never_fails:
  "(validate_try Image_open b = Inl e \<longrightarrow> validate_image_for_medical_scan Image_open b = skipped)
   \<and> (Image_open b = Inl e \<longrightarrow> validate_image_for_medical_scan Image_open b = skipped)
   \<and> (Image_open b = Inr im \<and> bands (im_mode im) = 2
        \<longrightarrow> validate_image_for_medical_scan Image_open b = skipped)
   \<and> is_valid skipped \<and> reason skipped = ''Validation skipped due to error.''"
  by (simp add: validate_image_for_medical_scan_def validate_try_def skipped_def np_array_def
      channel_def)

theorem validate_never_fails_witness:
  "validate_try raw_open [] = Inl (UnidentifiedImageError ''cannot identify image file'')
   \<and> raw_open [] = Inl (UnidentifiedImageError ''cannot identify image file'')
   \<and> validate_image_for_medical_scan raw_open [] = skipped
   \<and> raw_open [2, 1, 1, 90, 255]
       = Inr \<lparr>im_mode = Mode_LA, im_width = 1, im_height = 1, im_samples = [90, 255]\<rparr>
   \<and> bands Mode_LA = 2
   \<and> validate_image_for_medical_scan raw_open [2, 1, 1, 90, 255] = skipped
   \<and> is_valid skipped"
  using validate_never_fails[of raw_open "[]" "UnidentifiedImageError ''cannot identify image file''"]
    validate_never_fails[of raw_open "[2, 1, 1, 90, 255]" _
      "\<lparr>im_mode = Mode_LA, im_width = 1, im_height = 1, im_samples = [90, 255]\<rparr>"]
    validate_try_empty open_empty open_la
  by simp

subsection \<open>Preprocessor: errors\<close>

text \<open>
  C8. \<^verbatim>\<open>preprocess_image_from_bytes\<close> consults the validator first: when validation
  rejects, the call fails with a ValueError whose message is ``Failed to preprocess
  image: '' followed by the rejection reason, whatever the later steps would do. Every
  failure of the call is a ValueError with that prefix, and a decoding failure carries
  the decoder's message after it.
\<close>

theorem preprocess_errors_wrapped:
  "(\<not> is_valid (validate_image_for_medical_scan Image_open b) \<longrightarrow>
      preprocess_image_from_bytes Image_open kern b =
        Inl (ValueError (''Failed to preprocess image: ''
                           @ reason (validate_image_for_medical_scan Image_open b))))
   \<and> (preprocess_image_from_bytes Image_open kern b = Inl e \<longrightarrow>
        (\<exists>m. e = ValueError (''Failed to preprocess image: '' @ m)))
   \<and> (Image_open b = Inl e' \<longrightarrow>
        preprocess_image_from_bytes Image_open kern b =
          Inl (ValueError (''Failed to preprocess image: '' @ str_of e')))"
  by (auto simp add: preprocess_image_from_bytes_def preprocess_try_def Let_def
      validate_image_for_medical_scan_def validate_try_def skipped_def split: sum.splits)

theorem preprocess_errors_wrapped_witness:
  "\<not> is_valid (validate_image_for_medical_scan raw_open [3, 1, 1, 255, 0, 0])
   \<and> preprocess_image_from_bytes raw_open nearest [3, 1, 1, 255, 0, 0] =
        Inl (ValueError (''Failed to preprocess image: '' @ reason rejected))
   \<and> raw_open [] = Inl (UnidentifiedImageError ''cannot identify image file'')
   \<and> preprocess_image_from_bytes raw_open nearest [] =
        Inl (ValueError (''Failed to preprocess image: '' @ ''cannot identify image file''))"
  using preprocess_errors_wrapped[of raw_open "[3, 1, 1, 255, 0, 0]" nearest
      "ValueError (''Failed to preprocess image: '' @ reason rejected)"]
    preprocess_errors_wrapped[of raw_open "[]" nearest _
      "UnidentifiedImageError ''cannot identify image file''"]
    valid_red open_empty
  by (simp add: rejected_def)

subsection \<open>Preprocessor: channel count\<close>

text \<open>
  C9, at a grey image with alpha (Pillow mode LA, two bands, 1 x 1 pixel): the channel
  split of the validator fails and validation is skipped; the resized array is 3-D with
  last axis 2, so neither conversion branch fires, and the call returns a tensor of
  shape (1, 150, 150, 2).
\<close>

theorem prepare_grey_alpha_two_channels:
  "validate_image_for_medical_scan raw_open [2, 1, 1, 90, 255] = skipped
   \<and> map_sum id shape (preprocess_image_from_bytes raw_open nearest [2, 1, 1, 90, 255])
       = Inr [1, 150, 150, 2]"
  using la_prepared valid_la by auto

subsection \<open>Preprocessor: sample values\<close>



end
